theory Spec2Isabelle
  imports Main
begin

section \<open>Python values shared by the helpers\<close>

text \<open>
  The exceptions the two modules can raise, as values. A call that raises returns
  \<open>Inl e\<close>; a call that returns \<open>v\<close> returns \<open>Inr v\<close>.
\<close>

datatype py_error =
    ValueError
  | IndexError
  | KeyError
  | TypeError
  | FileNotFoundError
  | PermissionError
  | IsADirectoryError
  | NotADirectoryError
  | ExcelReadError
  | DatabaseError
  | ProgrammingError

section \<open>Utils.get\_logger\<close>









text \<open>
  \<open>logging.FileHandler(path, mode='w')\<close> opens the file in its constructor. Whether
  that succeeds depends on the file system, which is a parameter: \<open>open_w path\<close> is
  None when the file can be opened for writing, and otherwise the reason it cannot; the
  constructor then raises the corresponding \<open>OSError\<close>.
\<close>

datatype open_failure = NoSuchDirectory | PermissionDenied | PathIsDirectory

fun open_error :: "open_failure \<Rightarrow> py_error" where
  "open_error NoSuchDirectory = FileNotFoundError"
| "open_error PermissionDenied = PermissionError"
| "open_error PathIsDirectory = IsADirectoryError"









definition posix_join :: "string \<Rightarrow> string \<Rightarrow> string" where
  "posix_join a b =
     (if b \<noteq> [] \<and> hd b = CHR ''/'' then b
      else if a = [] \<or> last a = CHR ''/'' then a @ b
      else a @ ''/'' @ b)"


section \<open>Tables\<close>

text \<open>
  A pandas DataFrame as far as the helpers use it: the column labels in order and the
  rows, each a list of cells. \<open>shape[0]\<close> is the number of rows and \<open>shape[1]\<close> the
  number of columns.
\<close>

datatype cell = CNull | CInt int | CStr string

record dataframe =
  columns :: "string list"
  rows :: "cell list list"

definition shape0 :: "dataframe \<Rightarrow> nat" where
  "shape0 df = length (rows df)"

definition shape1 :: "dataframe \<Rightarrow> nat" where
  "shape1 df = length (columns df)"

text \<open>
  \<open>pd.DataFrame(data, columns=cols)\<close> raises a ValueError when a row of \<open>data\<close> does
  not have one value per column label; \<open>pd.DataFrame(columns=cols)\<close> is the table with
  those labels and no rows.
\<close>

definition pd_DataFrame :: "cell list list \<Rightarrow> string list \<Rightarrow> py_error + dataframe" where
  "pd_DataFrame data cols =
     (if list_all (\<lambda>r. length r = length cols) data
      then Inr \<lparr>columns = cols, rows = data\<rparr>
      else Inl ValueError)"

definition pd_DataFrame_empty :: "string list \<Rightarrow> dataframe" where
  "pd_DataFrame_empty cols = \<lparr>columns = cols, rows = []\<rparr>"

text \<open>\<open>sep.join(xs)\<close> of Python.\<close>

fun str_join :: "string \<Rightarrow> string list \<Rightarrow> string" where
  "str_join sep [] = []"
| "str_join sep [x] = x"
| "str_join sep (x # y # ys) = x @ sep @ str_join sep (y # ys)"

section \<open>The database driver\<close>

text \<open>
  The driver (pyodbc) and the server behind it are outside the repository; they are the
  parameters of the model. \<open>accepts\<close> says which connection strings the server lets in,
  \<open>run_exec\<close> runs one statement on the database contents and yields the new contents
  and, for a query, the result set (column descriptions and rows), \<open>run_many\<close> runs one
  parameterised statement over a list of parameter rows, and \<open>np_cast\<close> is the
  conversion of one value to the common element type that \<open>np.array\<close> picks for the
  whole data.
\<close>

record col_desc =
  cname :: string
  type_code :: string
  null_ok :: bool

type_synonym result_set = "col_desc list \<times> cell list list"

record 'db env =
  accepts :: "string \<Rightarrow> bool"
  run_exec :: "'db \<Rightarrow> string \<Rightarrow> py_error + ('db \<times> result_set option)"
  run_many :: "'db \<Rightarrow> string \<Rightarrow> cell list list \<Rightarrow> py_error + 'db"
  np_cast :: "cell list list \<Rightarrow> cell \<Rightarrow> cell"

datatype db_op =
    OpConnect string nat
  | OpCursor nat
  | OpExecute nat string
  | OpExecutemany nat string "cell list list"
  | OpCommit nat
  | OpClose nat

text \<open>
  The state the helpers act on: the database contents, the connections that are open,
  the next connection handle, and the driver calls made so far, oldest first.
\<close>

record 'db world =
  store :: 'db
  open_conns :: "nat set"
  next_handle :: nat
  trace :: "db_op list"

record cursor =
  cur_conn :: nat
  description :: "col_desc list option"
  fetched :: "cell list list"

definition pyodbc_connect :: "'db env \<Rightarrow> string \<Rightarrow> 'db world \<Rightarrow> (py_error + nat) \<times> 'db world" where
  "pyodbc_connect env cs w =
     (if accepts env cs
      then (Inr (next_handle w),
            w\<lparr>open_conns := insert (next_handle w) (open_conns w),
              next_handle := Suc (next_handle w),
              trace := trace w @ [OpConnect cs (next_handle w)]\<rparr>)
      else (Inl DatabaseError, w))"

definition con_cursor :: "nat \<Rightarrow> 'db world \<Rightarrow> (py_error + cursor) \<times> 'db world" where
  "con_cursor c w =
     (if c \<in> open_conns w
      then (Inr \<lparr>cur_conn = c, description = None, fetched = []\<rparr>,
            w\<lparr>trace := trace w @ [OpCursor c]\<rparr>)
      else (Inl ProgrammingError, w))"

definition cursor_execute ::
  "'db env \<Rightarrow> cursor \<Rightarrow> string \<Rightarrow> 'db world \<Rightarrow> (py_error + cursor) \<times> 'db world" where
  "cursor_execute env cur sql w =
     (case run_exec env (store w) sql of
        Inl e \<Rightarrow> (Inl e, w\<lparr>trace := trace w @ [OpExecute (cur_conn cur) sql]\<rparr>)
      | Inr (db', res) \<Rightarrow>
          (Inr (case res of
                  None \<Rightarrow> cur\<lparr>description := None, fetched := []\<rparr>
                | Some (desc, data) \<Rightarrow> cur\<lparr>description := Some desc, fetched := data\<rparr>),
           w\<lparr>store := db', trace := trace w @ [OpExecute (cur_conn cur) sql]\<rparr>))"

text \<open>\<open>fetchall\<close> after a statement that is not a query raises.\<close>

definition cursor_fetchall :: "cursor \<Rightarrow> py_error + cell list list" where
  "cursor_fetchall cur =
     (case description cur of None \<Rightarrow> Inl ProgrammingError | Some _ \<Rightarrow> Inr (fetched cur))"

definition cursor_executemany ::
  "'db env \<Rightarrow> cursor \<Rightarrow> string \<Rightarrow> cell list list \<Rightarrow> 'db world \<Rightarrow> (py_error + unit) \<times> 'db world" where
  "cursor_executemany env cur sql params w =
     (case run_many env (store w) sql params of
        Inl e \<Rightarrow> (Inl e, w\<lparr>trace := trace w @ [OpExecutemany (cur_conn cur) sql params]\<rparr>)
      | Inr db' \<Rightarrow>
          (Inr (), w\<lparr>store := db', trace := trace w @ [OpExecutemany (cur_conn cur) sql params]\<rparr>))"

definition cursor_commit :: "cursor \<Rightarrow> 'db world \<Rightarrow> 'db world" where
  "cursor_commit cur w = w\<lparr>trace := trace w @ [OpCommit (cur_conn cur)]\<rparr>"

definition conn_close :: "nat \<Rightarrow> 'db world \<Rightarrow> (py_error + unit) \<times> 'db world" where
  "conn_close c w =
     (if c \<in> open_conns w
      then (Inr (), w\<lparr>open_conns := open_conns w - {c}, trace := trace w @ [OpClose c]\<rparr>)
      else (Inl ProgrammingError, w))"

section \<open>Utils: connecting\<close>

definition cred_conn_str :: "string \<Rightarrow> string \<Rightarrow> string \<Rightarrow> string \<Rightarrow> string" where
  "cred_conn_str server db_name username password =
     ''DRIVER=SQL Server;SERVER='' @ server @ '';DATABASE='' @ db_name
       @ '';UID='' @ username @ '';PWD='' @ password"

definition trusted_conn_str :: "string \<Rightarrow> string \<Rightarrow> string" where
  "trusted_conn_str server db_name =
     ''Driver=SQL Server;SERVER='' @ server @ '';DATABASE='' @ db_name
       @ '';Trusted_Connection=yes;''"

text \<open>The four-argument and the two-argument \<open>get_mssql_db_connection\<close>.\<close>

definition get_mssql_db_connection_cred ::
  "'db env \<Rightarrow> string \<Rightarrow> string \<Rightarrow> string \<Rightarrow> string \<Rightarrow> 'db world \<Rightarrow> (py_error + nat) \<times> 'db world" where
  "get_mssql_db_connection_cred env server db_name username password w =
     pyodbc_connect env (cred_conn_str server db_name username password) w"

definition get_mssql_db_connection_trusted ::
  "'db env \<Rightarrow> string \<Rightarrow> string \<Rightarrow> 'db world \<Rightarrow> (py_error + nat) \<times> 'db world" where
  "get_mssql_db_connection_trusted env server db_name w =
     pyodbc_connect env (trusted_conn_str server db_name) w"

text \<open>
  Reading a connection string back: the fields between semicolons (an empty field, as
  after a trailing semicolon, is none) and the keyword of a field, up to its \<open>=\<close>.
\<close>

fun split_on :: "char \<Rightarrow> string \<Rightarrow> string list" where
  "split_on c [] = [[]]"
| "split_on c (x # xs) =
     (if x = c then [] # split_on c xs
      else (case split_on c xs of
              [] \<Rightarrow> [[x]]
            | y # ys \<Rightarrow> (x # y) # ys))"

definition conn_fields :: "string \<Rightarrow> string list" where
  "conn_fields cs = filter (\<lambda>f. f \<noteq> []) (split_on CHR '';'' cs)"

definition field_key :: "string \<Rightarrow> string" where
  "field_key f = takeWhile (\<lambda>ch. ch \<noteq> CHR ''='') f"

section \<open>Utils: reading\<close>

text \<open>
  The loop \<open>for i, _ in enumerate(cursor.description): cols.append(cursor.description[i][0])\<close>,
  over the indices still to visit.
\<close>

fun collect_cols :: "col_desc list \<Rightarrow> nat list \<Rightarrow> string list \<Rightarrow> string list" where
  "collect_cols desc [] cols = cols"
| "collect_cols desc (i # is) cols = collect_cols desc is (cols @ [cname (desc ! i)])"

definition np_array :: "'db env \<Rightarrow> cell list list \<Rightarrow> cell list list" where
  "np_array env data = map (map (np_cast env data)) data"

text \<open>
  The connection-taking \<open>read_from_mssql_db\<close>. After a statement without a result set
  \<open>fetchall\<close> raises; the \<open>description\<close> of such a cursor is None, which \<open>enumerate\<close>
  would reject with a TypeError.
\<close>

definition read_from_mssql_db ::
  "'db env \<Rightarrow> nat \<Rightarrow> string \<Rightarrow> 'db world \<Rightarrow> (py_error + dataframe) \<times> 'db world" where
  "read_from_mssql_db env db_con sql w =
     (case con_cursor db_con w of
        (Inl e, w1) \<Rightarrow> (Inl e, w1)
      | (Inr cur0, w1) \<Rightarrow>
     (case cursor_execute env cur0 sql w1 of
        (Inl e, w2) \<Rightarrow> (Inl e, w2)
      | (Inr cur, w2) \<Rightarrow>
     (case cursor_fetchall cur of
        Inl e \<Rightarrow> (Inl e, w2)
      | Inr data \<Rightarrow>
     (case description cur of
        None \<Rightarrow> (Inl TypeError, w2)
      | Some desc \<Rightarrow>
          let cols = collect_cols desc [0..<length desc] []
          in if length data > 0
             then (pd_DataFrame (np_array env data) cols, w2)
             else (Inr (pd_DataFrame_empty cols), w2)))))"

text \<open>The five-argument (credentials) and the three-argument (trusted) overloads.\<close>

definition read_from_mssql_db_cred ::
  "'db env \<Rightarrow> string \<Rightarrow> string \<Rightarrow> string \<Rightarrow> string \<Rightarrow> string \<Rightarrow> 'db world
     \<Rightarrow> (py_error + dataframe) \<times> 'db world" where
  "read_from_mssql_db_cred env server db_name username password sql w =
     (case get_mssql_db_connection_cred env server db_name username password w of
        (Inl e, w1) \<Rightarrow> (Inl e, w1)
      | (Inr conn, w1) \<Rightarrow>
     (case read_from_mssql_db env conn sql w1 of
        (Inl e, w2) \<Rightarrow> (Inl e, w2)
      | (Inr data, w2) \<Rightarrow>
     (case conn_close conn w2 of
        (Inl e, w3) \<Rightarrow> (Inl e, w3)
      | (Inr _, w3) \<Rightarrow> (Inr data, w3))))"

definition read_from_mssql_db_trusted ::
  "'db env \<Rightarrow> string \<Rightarrow> string \<Rightarrow> string \<Rightarrow> 'db world \<Rightarrow> (py_error + dataframe) \<times> 'db world" where
  "read_from_mssql_db_trusted env server db_name sql w =
     (case get_mssql_db_connection_trusted env server db_name w of
        (Inl e, w1) \<Rightarrow> (Inl e, w1)
      | (Inr conn, w1) \<Rightarrow>
     (case read_from_mssql_db env conn sql w1 of
        (Inl e, w2) \<Rightarrow> (Inl e, w2)
      | (Inr data, w2) \<Rightarrow>
     (case conn_close conn w2 of
        (Inl e, w3) \<Rightarrow> (Inl e, w3)
      | (Inr _, w3) \<Rightarrow> (Inr data, w3))))"

section \<open>Utils: writing\<close>

definition columns_clause :: "string list \<Rightarrow> string" where
  "columns_clause column_list = str_join '','' column_list"

definition placeholders :: "nat \<Rightarrow> string" where
  "placeholders n = str_join '','' (replicate n ''?'')"

definition insert_sql :: "string \<Rightarrow> string list \<Rightarrow> dataframe \<Rightarrow> string" where
  "insert_sql table_name column_list value_df =
     ''INSERT INTO '' @ table_name @ '' ('' @ columns_clause column_list
       @ '') VALUES ('' @ placeholders (shape1 value_df) @ '')''"

text \<open>The connection-taking \<open>write_to_mssql_db\<close>.\<close>

definition write_to_mssql_db ::
  "'db env \<Rightarrow> nat \<Rightarrow> string \<Rightarrow> string list \<Rightarrow> dataframe \<Rightarrow> 'db world
     \<Rightarrow> (py_error + unit) \<times> 'db world" where
  "write_to_mssql_db env db_con table_name column_list value_df w =
     (if shape0 value_df = 0 then (Inl ValueError, w)
      else
     (case con_cursor db_con w of
        (Inl e, w1) \<Rightarrow> (Inl e, w1)
      | (Inr cur, w1) \<Rightarrow>
     (case cursor_executemany env cur (insert_sql table_name column_list value_df)
             (rows value_df) w1 of
        (Inl e, w2) \<Rightarrow> (Inl e, w2)
      | (Inr _, w2) \<Rightarrow> (Inr (), cursor_commit cur w2))))"

text \<open>The seven-argument (credentials) and the five-argument (trusted) overloads.\<close>

definition write_to_mssql_db_cred ::
  "'db env \<Rightarrow> string \<Rightarrow> string \<Rightarrow> string \<Rightarrow> string \<Rightarrow> string \<Rightarrow> string list \<Rightarrow> dataframe
     \<Rightarrow> 'db world \<Rightarrow> (py_error + unit) \<times> 'db world" where
  "write_to_mssql_db_cred env server db_name username password table_name column_list value_df w =
     (case get_mssql_db_connection_cred env server db_name username password w of
        (Inl e, w1) \<Rightarrow> (Inl e, w1)
      | (Inr conn, w1) \<Rightarrow>
     (case write_to_mssql_db env conn table_name column_list value_df w1 of
        (Inl e, w2) \<Rightarrow> (Inl e, w2)
      | (Inr _, w2) \<Rightarrow> conn_close conn w2))"

definition write_to_mssql_db_trusted ::
  "'db env \<Rightarrow> string \<Rightarrow> string \<Rightarrow> string \<Rightarrow> string list \<Rightarrow> dataframe
     \<Rightarrow> 'db world \<Rightarrow> (py_error + unit) \<times> 'db world" where
  "write_to_mssql_db_trusted env server db_name table_name column_list value_df w =
     (case get_mssql_db_connection_trusted env server db_name w of
        (Inl e, w1) \<Rightarrow> (Inl e, w1)
      | (Inr conn, w1) \<Rightarrow>
     (case write_to_mssql_db env conn table_name column_list value_df w1 of
        (Inl e, w2) \<Rightarrow> (Inl e, w2)
      | (Inr _, w2) \<Rightarrow> conn_close conn w2))"

text \<open>
  The arity of a comma-separated clause of the statement: the number of items between
  the commas, none for the empty clause.
\<close>

definition clause_arity :: "string \<Rightarrow> nat" where
  "clause_arity s = (if s = [] then 0 else Suc (count_list s CHR '',''))"

section \<open>A small driver and database to run the helpers on\<close>

text \<open>
  A database that is one table of rows: every connection string is accepted, the
  statement \<open>SELECT\<close> returns the table under two columns, any other statement has no
  result set, and an insert appends its parameter rows.
\<close>

definition example_desc :: "col_desc list" where
  "example_desc =
     [\<lparr>cname = ''ID'', type_code = ''int'', null_ok = False\<rparr>,
      \<lparr>cname = ''Title'', type_code = ''str'', null_ok = True\<rparr>]"

definition example_env :: "(cell list list) env" where
  "example_env =
     \<lparr>accepts = (\<lambda>cs. True),
      run_exec = (\<lambda>db sql. if sql = ''SELECT'' then Inr (db, Some (example_desc, db))
                            else Inr (db, None)),
      run_many = (\<lambda>db sql params. Inr (db @ params)),
      np_cast = (\<lambda>data c. c)\<rparr>"

definition example_world :: "(cell list list) world" where
  "example_world = \<lparr>store = [], open_conns = {0}, next_handle = 1, trace = []\<rparr>"

definition example_df :: dataframe where
  "example_df = \<lparr>columns = [''ID'', ''Title''], rows = [[CInt 1, CStr ''Song'']]\<rparr>"

section \<open>Utils.load\_config\<close>

text \<open>
  A parsed YAML document. \<open>yaml.safe_load\<close> is the parser of the YAML library: it is a
  parameter, giving the parsed document, the \<open>YAMLError\<close> it raises on a malformed
  document (by its message), or another error raised while the file is read.
\<close>

datatype yaml =
    YNull
  | YBool bool
  | YInt int
  | YStr string
  | YSeq "yaml list"
  | YMap "(string \<times> yaml) list"

datatype load_result = Loaded yaml | YAMLError string | ReadError py_error

text \<open>
  How a call ends: it returns a value, raises an exception, or leaves through
  \<open>sys.exit(code)\<close>, which raises \<open>SystemExit\<close> and so gives no value back to the caller;
  the caller in main.py is module-level code without a handler, so the process ends.
\<close>

datatype 'a outcome = Returned 'a | Raised py_error | SystemExit int

text \<open>
  \<open>load_config\<close>: \<open>open_r path\<close> is the text of the file, or the reason it cannot be
  opened for reading; the second component of the result is what was printed.
\<close>

definition load_config ::
  "(string \<Rightarrow> load_result) \<Rightarrow> (string \<Rightarrow> open_failure + string) \<Rightarrow> string
     \<Rightarrow> yaml outcome \<times> string list" where
  "load_config safe_load open_r file_path =
     (case open_r file_path of
        Inl failure \<Rightarrow> (Raised (open_error failure), [])
      | Inr conf_file \<Rightarrow>
          (case safe_load conf_file of
             Loaded conf \<Rightarrow> (Returned conf, [])
           | YAMLError exc \<Rightarrow> (SystemExit 0, [exc])
           | ReadError e \<Rightarrow> (Raised e, [])))"

text \<open>
  A parser and two files to run it on: the parser knows one well-formed text and
  rejects every other.
\<close>

definition example_configs :: yaml where
  "example_configs =
     YMap [(''data'', YMap [(''model_path'', YStr ''model.h5''), (''Songs'', YStr ''Songs'')])]"

definition example_safe_load :: "string \<Rightarrow> load_result" where
  "example_safe_load text =
     (if text = ''data: {model_path: model.h5, Songs: Songs}'' then Loaded example_configs
      else YAMLError ''mapping values are not allowed here'')"

definition example_open_r :: "string \<Rightarrow> open_failure + string" where
  "example_open_r path =
     (if path = ''config/configurations.yml''
      then Inr ''data: {model_path: model.h5, Songs: Songs}''
      else if path = ''config/broken.yml'' then Inr ''data: Songs: : x''
      else Inl NoSuchDirectory)"

section \<open>main.classifer\<close>

text \<open>
  An image tensor with its shape. The pre-trained model is loaded from a file that is
  not part of the repository: \<open>predict_on_batch\<close> is a parameter, giving one row of
  scores per image of the batch, or raising. Scores are of any linearly ordered type.
\<close>

record tensor =
  tshape :: "nat list"
  tdata :: "int list"

definition correctly_shaped :: "tensor \<Rightarrow> bool" where
  "correctly_shaped t \<longleftrightarrow> tshape t = [1, 48, 48, 1] \<and> length (tdata t) = 48 * 48"

definition class_dict :: "nat \<rightharpoonup> string" where
  "class_dict = map_of [(0, ''Angry''), (1, ''Happy''), (2, ''Neutral''), (3, ''Sad'')]"

text \<open>
  \<open>np.array(result).argmax()\<close>: the index, in the flattened array, of the first
  occurrence of the greatest value; a ValueError on an empty array.
\<close>

fun argmax_from :: "'a::linorder list \<Rightarrow> nat \<Rightarrow> 'a \<Rightarrow> nat \<Rightarrow> nat" where
  "argmax_from [] i best bi = bi"
| "argmax_from (x # xs) i best bi =
     (if best < x then argmax_from xs (Suc i) x i else argmax_from xs (Suc i) best bi)"

definition np_argmax :: "'a::linorder list \<Rightarrow> py_error + nat" where
  "np_argmax xs = (case xs of [] \<Rightarrow> Inl ValueError | x # rest \<Rightarrow> Inr (argmax_from rest 1 x 0))"

definition classifer ::
  "(tensor \<Rightarrow> py_error + 'a::linorder list list) \<Rightarrow> tensor \<Rightarrow> py_error + string" where
  "classifer predict_on_batch img_tensor =
     (case predict_on_batch img_tensor of
        Inl e \<Rightarrow> Inl e
      | Inr result \<Rightarrow>
     (case np_argmax (concat result) of
        Inl e \<Rightarrow> Inl e
      | Inr label \<Rightarrow>
     (case class_dict label of
        None \<Rightarrow> Inl KeyError
      | Some name \<Rightarrow> Inr name)))"

text \<open>
  What is expected of the model file: for every correctly shaped tensor it yields the
  scores of four classes for the one image.
\<close>

definition four_class_model :: "(tensor \<Rightarrow> py_error + 'a::linorder list list) \<Rightarrow> bool" where
  "four_class_model predict_on_batch \<longleftrightarrow>
     (\<forall>t. correctly_shaped t \<longrightarrow> (\<exists>a b c d. predict_on_batch t = Inr [[a, b, c, d]]))"

definition emotion_labels :: "string set" where
  "emotion_labels = {''Angry'', ''Happy'', ''Neutral'', ''Sad''}"

section \<open>main.fetch\_song\_list\<close>

text \<open>
  The file system as the function sees it: a path names a directory, with its entries
  in the order \<open>os.listdir\<close> gives them, or a file, with the table \<open>pd.read_excel\<close>
  reads from it (None when the file is not a readable spreadsheet).
\<close>

datatype node = Dir "string list" | File "dataframe option"

type_synonym filesystem = "string \<rightharpoonup> node"

fun yaml_index :: "yaml \<Rightarrow> string \<Rightarrow> py_error + yaml" where
  "yaml_index (YMap kvs) k = (case map_of kvs k of None \<Rightarrow> Inl KeyError | Some v \<Rightarrow> Inr v)"
| "yaml_index _ k = Inl TypeError"

fun os_path_join :: "(string \<Rightarrow> string \<Rightarrow> string) \<Rightarrow> yaml \<Rightarrow> string \<Rightarrow> py_error + string" where
  "os_path_join pjoin (YStr a) b = Inr (pjoin a b)"
| "os_path_join pjoin _ b = Inl TypeError"

definition os_listdir :: "filesystem \<Rightarrow> string \<Rightarrow> py_error + string list" where
  "os_listdir fs path =
     (case fs path of
        None \<Rightarrow> Inl FileNotFoundError
      | Some (File _) \<Rightarrow> Inl NotADirectoryError
      | Some (Dir names) \<Rightarrow> Inr names)"

definition pd_read_excel :: "filesystem \<Rightarrow> string \<Rightarrow> py_error + dataframe" where
  "pd_read_excel fs path =
     (case fs path of
        None \<Rightarrow> Inl FileNotFoundError
      | Some (Dir _) \<Rightarrow> Inl IsADirectoryError
      | Some (File None) \<Rightarrow> Inl ExcelReadError
      | Some (File (Some t)) \<Rightarrow> Inr t)"

text \<open>
  \<open>df.drop(label, axis=1)\<close>: a KeyError when no column has the label; otherwise every
  column with that label goes, with its cell in every row.
\<close>

definition drop_cells :: "string \<Rightarrow> string list \<Rightarrow> cell list \<Rightarrow> cell list" where
  "drop_cells label cols r = map snd (filter (\<lambda>cv. fst cv \<noteq> label) (zip cols r))"

definition df_drop :: "string \<Rightarrow> dataframe \<Rightarrow> py_error + dataframe" where
  "df_drop label df =
     (if label \<in> set (columns df)
      then Inr \<lparr>columns = filter (\<lambda>c. c \<noteq> label) (columns df),
                rows = map (drop_cells label (columns df)) (rows df)\<rparr>
      else Inl KeyError)"

definition fetch_song_list ::
  "(string \<Rightarrow> string \<Rightarrow> string) \<Rightarrow> yaml \<Rightarrow> filesystem \<Rightarrow> string \<Rightarrow> py_error + dataframe" where
  "fetch_song_list pjoin configs fs emo_class =
     (case yaml_index configs ''data'' of
        Inl e \<Rightarrow> Inl e
      | Inr d \<Rightarrow>
     (case yaml_index d ''Songs'' of
        Inl e \<Rightarrow> Inl e
      | Inr songs \<Rightarrow>
     (case os_path_join pjoin songs emo_class of
        Inl e \<Rightarrow> Inl e
      | Inr emo_class_folder \<Rightarrow>
     (case os_listdir fs emo_class_folder of
        Inl e \<Rightarrow> Inl e
      | Inr names \<Rightarrow>
     (case names of
        [] \<Rightarrow> Inl IndexError
      | first # _ \<Rightarrow>
     (case pd_read_excel fs (pjoin emo_class_folder first) of
        Inl e \<Rightarrow> Inl e
      | Inr song_list_df \<Rightarrow> df_drop ''ID'' song_list_df))))))"

definition is_file :: "node option \<Rightarrow> bool" where
  "is_file n = (case n of Some (File _) \<Rightarrow> True | _ \<Rightarrow> False)"

section \<open>Utils: the overloads that open their own connection\<close>

text \<open>
  What a call with its own connection does, given the outcome of connecting, the
  connection-taking operation and the outcome of the call: when connecting raises, the
  call raises the same error; otherwise the call ends as the operation on the new
  connection ends, and the connection is closed when the operation returned and still
  open when it raised.
\<close>

definition own_connection_call ::
  "(py_error + nat) \<times> 'db world \<Rightarrow> (nat \<Rightarrow> 'db world \<Rightarrow> (py_error + 'a) \<times> 'db world)
     \<Rightarrow> (py_error + 'a) \<times> 'db world \<Rightarrow> bool" where
  "own_connection_call connected operation call =
     (case connected of
        (Inl e, w1) \<Rightarrow> call = (Inl e, w1)
      | (Inr conn, w1) \<Rightarrow>
          conn \<in> open_conns w1 \<and>
          fst call = fst (operation conn w1) \<and>
          (case fst (operation conn w1) of
             Inl e \<Rightarrow> snd call = snd (operation conn w1) \<and> conn \<in> open_conns (snd call)
           | Inr v \<Rightarrow> snd call = snd (conn_close conn (snd (operation conn w1))) \<and>
                       conn \<notin> open_conns (snd call) \<and>
                       trace (snd call) = trace (snd (operation conn w1)) @ [OpClose conn]))"

definition empty_df :: dataframe where
  "empty_df = \<lparr>columns = [''ID'', ''Title''], rows = []\<rparr>"

section \<open>A model, a configuration and a directory tree to run main.py on\<close>

definition example_model :: "tensor \<Rightarrow> py_error + int list list" where
  "example_model t = (if correctly_shaped t then Inr [[1, 5, 2, 0]] else Inl ValueError)"

definition example_tensor :: tensor where
  "example_tensor = \<lparr>tshape = [1, 48, 48, 1], tdata = replicate (48 * 48) 0\<rparr>"

definition no_id_df :: dataframe where
  "no_id_df = \<lparr>columns = [''Title'', ''Artist''], rows = [[CStr ''Song'', CStr ''Band'']]\<rparr>"

definition example_fs :: filesystem where
  "example_fs = map_of
     [(''Songs/Happy'', Dir [''happy.xlsx'']),
      (''Songs/Happy/happy.xlsx'', File (Some example_df)),
      (''Songs/Sad'', Dir [''sad.xlsx'']),
      (''Songs/Sad/sad.xlsx'', File (Some no_id_df)),
      (''Songs/Neutral'', Dir [''notes.txt'']),
      (''Songs/Neutral/notes.txt'', File None),
      (''Songs/Angry'', Dir [])]"

section \<open>Properties of get\_logger\<close>








section \<open>Properties of the database helpers\<close>

lemma collect_cols_acc:
  "collect_cols desc idxs acc = acc @ map (\<lambda>i. cname (desc ! i)) idxs"
  by (induction idxs arbitrary: acc) auto

lemma collect_cols_names: "collect_cols desc [0..<length desc] [] = map cname desc"
proof -
  have "map (\<lambda>i. cname (desc ! i)) [0..<length desc] = map cname (map ((!) desc) [0..<length desc])"
    by simp
  also have "\<dots> = map cname desc" by (simp only: map_nth)
  finally show ?thesis by (simp add: collect_cols_acc)
qed

lemma np_array_shape:
  "length (np_array env data) = length data"
  "list_all (\<lambda>r. length r = n) data \<Longrightarrow> list_all (\<lambda>r. length r = n) (np_array env data)"
  by (simp_all add: np_array_def list_all_iff)

text \<open>
  C9. When the statement is a query, run on an open connection, the connection-taking
  \<open>read_from_mssql_db\<close> returns a DataFrame whose columns are exactly the names of the
  cursor description, in order. For a result set of zero rows it is the empty DataFrame
  with those columns; otherwise it has one row per fetched row (the fetched rows after the
  conversion by \<open>np.array\<close>). The rows of a result set have one value per described
  column.
\<close>

theorem read_from_mssql_db_columns:
  assumes "db_con \<in> open_conns w"
    and "run_exec env (store w) sql = Inr (db', Some (desc, data))"
    and "list_all (\<lambda>r. length r = length desc) data"
  shows "\<exists>df. fst (read_from_mssql_db env db_con sql w) = Inr df \<and>
           columns df = map cname desc \<and>
           length (rows df) = length data \<and>
           rows df = np_array env data \<and>
           (data = [] \<longrightarrow> df = pd_DataFrame_empty (map cname desc))"
proof (cases "data = []")
  case True
  then show ?thesis using assms
    by (simp add: read_from_mssql_db_def con_cursor_def cursor_execute_def cursor_fetchall_def
        collect_cols_names pd_DataFrame_empty_def np_array_def)
next
  case False
  then show ?thesis using assms np_array_shape(2)[OF assms(3), of env]
    by (simp add: read_from_mssql_db_def con_cursor_def cursor_execute_def cursor_fetchall_def
        collect_cols_names pd_DataFrame_def np_array_shape(1))
qed

text \<open>
  C2. For every table name, column list and connection, the connection-taking
  \<open>write_to_mssql_db\<close> with a row-set of zero rows raises a ValueError, and the state
  after the call is the state before it: no cursor was created, nothing was executed or
  committed, and the database contents are unchanged.
\<close>

theorem write_to_mssql_db_empty_raises:
  "shape0 value_df = 0 \<Longrightarrow>
   write_to_mssql_db env db_con table_name column_list value_df w = (Inl ValueError, w)"
  by (simp add: write_to_mssql_db_def)

lemma count_str_join_comma:
  "count_list (str_join '','' xs) ch =
     sum_list (map (\<lambda>x. count_list x ch) xs) + (if ch = CHR '','' then length xs - 1 else 0)"
  by (induction "'',''" xs rule: str_join.induct) auto

theorem read_from_mssql_db_columns_witness:
  "fst (read_from_mssql_db example_env 0 ''SELECT'' example_world)
     = Inr \<lparr>columns = [''ID'', ''Title''], rows = []\<rparr> \<and>
   fst (read_from_mssql_db example_env 0 ''SELECT''
          (example_world\<lparr>store := [[CInt 1, CStr ''Song''], [CInt 2, CNull]]\<rparr>))
     = Inr \<lparr>columns = [''ID'', ''Title''], rows = [[CInt 1, CStr ''Song''], [CInt 2, CNull]]\<rparr>"
  using read_from_mssql_db_columns
     [of 0 example_world example_env "''SELECT''" "[]" example_desc "[]"]
    read_from_mssql_db_columns
     [of 0 "example_world\<lparr>store := [[CInt 1, CStr ''Song''], [CInt 2, CNull]]\<rparr>" example_env
         "''SELECT''" "[[CInt 1, CStr ''Song''], [CInt 2, CNull]]" example_desc
         "[[CInt 1, CStr ''Song''], [CInt 2, CNull]]"]
  by (auto simp: example_env_def example_world_def example_desc_def np_array_def
        pd_DataFrame_empty_def)

theorem write_to_mssql_db_empty_raises_witness:
  "write_to_mssql_db example_env 0 ''songs'' [''ID'', ''Title'']
      \<lparr>columns = [''ID'', ''Title''], rows = []\<rparr> example_world
     = (Inl ValueError, example_world)"
  using write_to_mssql_db_empty_raises
     [of "\<lparr>columns = [''ID'', ''Title''], rows = []\<rparr>" example_env 0 "''songs''"
         "[''ID'', ''Title'']" example_world]
  by (simp add: shape0_def)

lemma placeholders_count: "count_list (placeholders n) CHR ''?'' = n"
  by (simp add: placeholders_def count_str_join_comma sum_list_replicate)

lemma placeholders_arity: "clause_arity (placeholders n) = n"
proof (cases n)
  case 0
  then show ?thesis by (simp add: clause_arity_def placeholders_def)
next
  case (Suc m)
  have "placeholders (Suc m) \<noteq> []"
    by (cases m) (simp_all add: placeholders_def)
  then show ?thesis using Suc
    by (simp add: clause_arity_def placeholders_def count_str_join_comma sum_list_replicate)
qed

lemma str_join_empty_iff:
  "\<forall>x\<in>set xs. x \<noteq> [] \<Longrightarrow> str_join sep xs = [] \<longleftrightarrow> xs = []"
  by (induction sep xs rule: str_join.induct) auto

lemma columns_clause_arity:
  assumes "\<forall>c\<in>set column_list. c \<noteq> [] \<and> CHR '','' \<notin> set c"
  shows "clause_arity (columns_clause column_list) = length column_list"
proof (cases "column_list = []")
  case True
  then show ?thesis by (simp add: clause_arity_def columns_clause_def)
next
  case False
  have s0: "sum_list (map (\<lambda>x. count_list x CHR '','') column_list) = 0"
    using assms by (induction column_list) (auto simp: count_list_0_iff)
  have c: "count_list (str_join '','' column_list) CHR '','' = length column_list - 1"
    unfolding count_str_join_comma s0 by simp
  have ne: "str_join '','' column_list \<noteq> []"
    using assms False str_join_empty_iff[of column_list "'',''"] by blast
  have "0 < length column_list" using False by simp
  then show ?thesis using ne c
    by (simp add: clause_arity_def columns_clause_def)
qed

lemma write_executes_insert_sql:
  assumes "shape0 value_df \<noteq> 0" and "db_con \<in> open_conns w"
  shows "OpExecutemany db_con (insert_sql table_name column_list value_df) (rows value_df)
           \<in> set (trace (snd (write_to_mssql_db env db_con table_name column_list value_df w)))"
  using assms
  by (auto simp: write_to_mssql_db_def con_cursor_def cursor_executemany_def cursor_commit_def
      split: sum.splits)

text \<open>
  C10 (as the code has it). For a non-empty row-set, the INSERT statement that the
  connection-taking \<open>write_to_mssql_db\<close> hands to \<open>executemany\<close> has, in its VALUES
  clause, exactly one \<open>?\<close> per column of the DataFrame, whatever the length of
  \<open>column_list\<close>. When every name in \<open>column_list\<close> is non-empty and free of commas, the
  arity of its column clause equals the arity of its placeholder clause exactly when
  \<open>len(column_list)\<close> is the DataFrame's column count.
\<close>

theorem insert_sql_placeholders:
  assumes "shape0 value_df \<noteq> 0" and "db_con \<in> open_conns w"
  shows "OpExecutemany db_con (insert_sql table_name column_list value_df) (rows value_df)
           \<in> set (trace (snd (write_to_mssql_db env db_con table_name column_list value_df w))) \<and>
         insert_sql table_name column_list value_df =
           ''INSERT INTO '' @ table_name @ '' ('' @ columns_clause column_list
             @ '') VALUES ('' @ placeholders (shape1 value_df) @ '')'' \<and>
         shape1 value_df = length (columns value_df) \<and>
         count_list (placeholders (shape1 value_df)) CHR ''?'' = length (columns value_df) \<and>
         clause_arity (placeholders (shape1 value_df)) = length (columns value_df) \<and>
         ((\<forall>c\<in>set column_list. c \<noteq> [] \<and> CHR '','' \<notin> set c) \<longrightarrow>
            (clause_arity (columns_clause column_list) = clause_arity (placeholders (shape1 value_df))
               \<longleftrightarrow> length column_list = length (columns value_df)))"
  using write_executes_insert_sql[OF assms]
  by (simp add: placeholders_count placeholders_arity columns_clause_arity insert_sql_def
      shape1_def)

theorem insert_sql_placeholders_witness:
  "insert_sql ''songs'' [''ID''] example_df = ''INSERT INTO songs (ID) VALUES (?,?)'' \<and>
   clause_arity (columns_clause [''ID'']) \<noteq> clause_arity (placeholders (shape1 example_df))"
  using insert_sql_placeholders [of example_df 0 example_world "''songs''" "[''ID'']" example_env]
  by (simp add: example_df_def example_world_def shape0_def shape1_def columns_clause_def
        placeholders_def numeral_2_eq_2)

text \<open>
  The claim as written fails for a column name that holds a comma: the names are joined
  as they are, so the one name \<open>a,b\<close> gives a column clause of arity two, equal to the
  placeholder arity of a two-column DataFrame, while \<open>len(column_list)\<close> is one.
\<close>

theorem insert_sql_arity_counterexample:
  "insert_sql ''t'' [''a,b''] example_df = ''INSERT INTO t (a,b) VALUES (?,?)'' \<and>
   clause_arity (columns_clause [''a,b'']) = clause_arity (placeholders (shape1 example_df)) \<and>
   length [''a,b''] \<noteq> shape1 example_df"
  by (simp add: insert_sql_def columns_clause_def placeholders_def clause_arity_def
      example_df_def shape1_def numeral_2_eq_2)

section \<open>Properties of the connection strings\<close>

lemma split_on_no_sep: "c \<notin> set s \<Longrightarrow> split_on c s = [s]"
  by (induction s) auto

lemma split_on_sep: "c \<notin> set a \<Longrightarrow> split_on c (a @ c # b) = a # split_on c b"
  by (induction a) (auto split: list.splits)

lemma trusted_conn_fields:
  assumes "CHR '';'' \<notin> set server" and "CHR '';'' \<notin> set db_name"
  shows "conn_fields (trusted_conn_str server db_name) =
           [''Driver=SQL Server'', ''SERVER='' @ server, ''DATABASE='' @ db_name,
            ''Trusted_Connection=yes'']"
proof -
  have eq: "trusted_conn_str server db_name =
      ''Driver=SQL Server'' @ CHR '';'' # ((''SERVER='' @ server) @ CHR '';'' #
        ((''DATABASE='' @ db_name) @ CHR '';'' # (''Trusted_Connection=yes'' @ CHR '';'' # [])))"
    by (simp add: trusted_conn_str_def)
  have a: "CHR '';'' \<notin> set ''Driver=SQL Server''"
    and b: "CHR '';'' \<notin> set (''SERVER='' @ server)"
    and c: "CHR '';'' \<notin> set (''DATABASE='' @ db_name)"
    and d: "CHR '';'' \<notin> set ''Trusted_Connection=yes''"
    using assms by simp_all
  have "split_on CHR '';'' (trusted_conn_str server db_name) =
      [''Driver=SQL Server'', ''SERVER='' @ server, ''DATABASE='' @ db_name,
       ''Trusted_Connection=yes'', []]"
    unfolding eq
    by (simp only: split_on_sep[OF a] split_on_sep[OF b] split_on_sep[OF c] split_on_sep[OF d]
        split_on.simps)
  then show ?thesis by (simp add: conn_fields_def)
qed

lemma cred_conn_fields:
  assumes "CHR '';'' \<notin> set server" and "CHR '';'' \<notin> set db_name"
    and "CHR '';'' \<notin> set username" and "CHR '';'' \<notin> set password"
  shows "conn_fields (cred_conn_str server db_name username password) =
           [''DRIVER=SQL Server'', ''SERVER='' @ server, ''DATABASE='' @ db_name,
            ''UID='' @ username, ''PWD='' @ password]"
proof -
  have eq: "cred_conn_str server db_name username password =
      ''DRIVER=SQL Server'' @ CHR '';'' # ((''SERVER='' @ server) @ CHR '';'' #
        ((''DATABASE='' @ db_name) @ CHR '';'' # ((''UID='' @ username) @ CHR '';'' #
           (''PWD='' @ password))))"
    by (simp add: cred_conn_str_def)
  have a: "CHR '';'' \<notin> set ''DRIVER=SQL Server''"
    and b: "CHR '';'' \<notin> set (''SERVER='' @ server)"
    and c: "CHR '';'' \<notin> set (''DATABASE='' @ db_name)"
    and d: "CHR '';'' \<notin> set (''UID='' @ username)"
    and e: "CHR '';'' \<notin> set (''PWD='' @ password)"
    using assms by simp_all
  have "split_on CHR '';'' (cred_conn_str server db_name username password) =
      [''DRIVER=SQL Server'', ''SERVER='' @ server, ''DATABASE='' @ db_name,
       ''UID='' @ username, ''PWD='' @ password]"
    unfolding eq
    by (simp only: split_on_sep[OF a] split_on_sep[OF b] split_on_sep[OF c] split_on_sep[OF d]
        split_on_no_sep[OF e])
  then show ?thesis by (simp add: conn_fields_def)
qed

lemma field_key_prefix: "CHR ''='' \<notin> set k \<Longrightarrow> field_key (k @ CHR ''='' # v) = k"
  by (induction k) (auto simp: field_key_def)

text \<open>
  C7 (as the code has it). The two-argument \<open>get_mssql_db_connection\<close> connects with the
  string \<open>Driver=SQL Server;SERVER=<server>;DATABASE=<db_name>;Trusted_Connection=yes;\<close>
  and the four-argument one with
  \<open>DRIVER=SQL Server;SERVER=<server>;DATABASE=<db_name>;UID=<username>;PWD=<password>\<close>.
  When server and database name hold no semicolon, the fields of the first are Driver,
  SERVER, DATABASE and \<open>Trusted_Connection=yes\<close>, with no UID or PWD field; when none of
  the four arguments holds a semicolon, the fields of the second end with the supplied
  username as UID and the supplied password as PWD.
\<close>

theorem connection_strings:
  "get_mssql_db_connection_trusted env server db_name w
     = pyodbc_connect env (trusted_conn_str server db_name) w \<and>
   get_mssql_db_connection_cred env server db_name username password w
     = pyodbc_connect env (cred_conn_str server db_name username password) w \<and>
   (CHR '';'' \<notin> set server \<and> CHR '';'' \<notin> set db_name \<longrightarrow>
      conn_fields (trusted_conn_str server db_name) =
        [''Driver=SQL Server'', ''SERVER='' @ server, ''DATABASE='' @ db_name,
         ''Trusted_Connection=yes''] \<and>
      map field_key (conn_fields (trusted_conn_str server db_name)) =
        [''Driver'', ''SERVER'', ''DATABASE'', ''Trusted_Connection'']) \<and>
   (CHR '';'' \<notin> set server \<and> CHR '';'' \<notin> set db_name \<and>
    CHR '';'' \<notin> set username \<and> CHR '';'' \<notin> set password \<longrightarrow>
      conn_fields (cred_conn_str server db_name username password) =
        [''DRIVER=SQL Server'', ''SERVER='' @ server, ''DATABASE='' @ db_name,
         ''UID='' @ username, ''PWD='' @ password])"
proof (intro conjI impI)
  show "get_mssql_db_connection_trusted env server db_name w
     = pyodbc_connect env (trusted_conn_str server db_name) w"
    by (simp add: get_mssql_db_connection_trusted_def)
  show "get_mssql_db_connection_cred env server db_name username password w
     = pyodbc_connect env (cred_conn_str server db_name username password) w"
    by (simp add: get_mssql_db_connection_cred_def)
next
  assume h: "CHR '';'' \<notin> set server \<and> CHR '';'' \<notin> set db_name"
  then show f: "conn_fields (trusted_conn_str server db_name) =
        [''Driver=SQL Server'', ''SERVER='' @ server, ''DATABASE='' @ db_name,
         ''Trusted_Connection=yes'']"
    by (simp add: trusted_conn_fields)
  have "field_key (''SERVER'' @ CHR ''='' # server) = ''SERVER''"
    and "field_key (''DATABASE'' @ CHR ''='' # db_name) = ''DATABASE''"
    by (rule field_key_prefix, simp)+
  then show "map field_key (conn_fields (trusted_conn_str server db_name)) =
        [''Driver'', ''SERVER'', ''DATABASE'', ''Trusted_Connection'']"
    unfolding f by (simp add: field_key_def)
next
  assume "CHR '';'' \<notin> set server \<and> CHR '';'' \<notin> set db_name \<and>
    CHR '';'' \<notin> set username \<and> CHR '';'' \<notin> set password"
  then show "conn_fields (cred_conn_str server db_name username password) =
        [''DRIVER=SQL Server'', ''SERVER='' @ server, ''DATABASE='' @ db_name,
         ''UID='' @ username, ''PWD='' @ password]"
    by (simp add: cred_conn_fields)
qed

theorem connection_strings_witness:
  "conn_fields (trusted_conn_str ''10.0.0.5'' ''music'') =
     [''Driver=SQL Server'', ''SERVER=10.0.0.5'', ''DATABASE=music'', ''Trusted_Connection=yes''] \<and>
   conn_fields (cred_conn_str ''10.0.0.5'' ''music'' ''sa'' ''pw'') =
     [''DRIVER=SQL Server'', ''SERVER=10.0.0.5'', ''DATABASE=music'', ''UID=sa'', ''PWD=pw'']"
  using connection_strings [of example_env "''10.0.0.5''" "''music''" example_world "''sa''" "''pw''"]
  by simp

text \<open>
  The claim as written fails for a database name that holds a semicolon: the arguments
  are substituted as they are, so the trusted connection string then has a UID field.
\<close>

theorem connection_strings_counterexample:
  "''UID'' \<in> set (map field_key (conn_fields (trusted_conn_str ''srv'' ''db;UID=sa;PWD=x'')))"
  by (simp add: trusted_conn_str_def conn_fields_def field_key_def)

section \<open>Properties of the overloads that take credentials\<close>

lemma pyodbc_connect_opens:
  "pyodbc_connect env cs w = (Inr c, w1) \<Longrightarrow> c \<in> open_conns w1"
  by (auto simp: pyodbc_connect_def split: if_splits)

lemma read_keeps_open_conns:
  "open_conns (snd (read_from_mssql_db env c q w)) = open_conns w"
  by (auto simp: read_from_mssql_db_def con_cursor_def cursor_execute_def Let_def
      split: sum.splits prod.splits option.splits if_splits)

lemma write_keeps_open_conns:
  "open_conns (snd (write_to_mssql_db env c t cols df w)) = open_conns w"
  by (auto simp: write_to_mssql_db_def con_cursor_def cursor_executemany_def cursor_commit_def
      split: sum.splits prod.splits option.splits if_splits)

lemma own_connection_callI:
  assumes keeps: "\<And>c w1. open_conns (snd (operation c w1)) = open_conns w1"
    and opens: "\<And>c w1. connected = (Inr c, w1) \<Longrightarrow> c \<in> open_conns w1"
    and call: "call =
      (case connected of
         (Inl e, w1) \<Rightarrow> (Inl e, w1)
       | (Inr conn, w1) \<Rightarrow>
           (case operation conn w1 of
              (Inl e, w2) \<Rightarrow> (Inl e, w2)
            | (Inr v, w2) \<Rightarrow>
                (case conn_close conn w2 of
                   (Inl e, w3) \<Rightarrow> (Inl e, w3)
                 | (Inr u, w3) \<Rightarrow> (Inr v, w3))))"
  shows "own_connection_call connected operation call"
proof (cases connected)
  case (Pair r w1)
  show ?thesis
  proof (cases r)
    case (Inl e)
    then show ?thesis using Pair call by (simp add: own_connection_call_def)
  next
    case (Inr c)
    have c_open: "c \<in> open_conns w1" using opens Pair Inr by simp
    obtain r2 w2 where op: "operation c w1 = (r2, w2)" by (cases "operation c w1")
    have w2_open: "c \<in> open_conns w2"
      using keeps[of c w1] op c_open by simp
    show ?thesis
    proof (cases r2)
      case (Inl e)
      then show ?thesis using Pair Inr op call c_open w2_open
        by (simp add: own_connection_call_def)
    next
      case (Inr v)
      then show ?thesis using Pair \<open>r = Inr c\<close> op call c_open w2_open
        by (simp add: own_connection_call_def conn_close_def)
    qed
  qed
qed

text \<open>
  C6 (as the code has it). Each overload of \<open>read_from_mssql_db\<close> and
  \<open>write_to_mssql_db\<close> that takes a server and database name (with or without username
  and password) opens its own connection with them. When the connection cannot be
  established it raises the driver's error. Otherwise it ends as the connection-taking
  overload ends on that fresh connection: it returns the same DataFrame (performs the
  same write), and the connection it opened is closed before it returns; or it raises
  the same error, and the connection it opened is then left open.
\<close>

theorem overloads_use_own_connection:
  "own_connection_call
     (get_mssql_db_connection_cred env server db_name username password w)
     (\<lambda>conn. read_from_mssql_db env conn sql)
     (read_from_mssql_db_cred env server db_name username password sql w) \<and>
   own_connection_call
     (get_mssql_db_connection_trusted env server db_name w)
     (\<lambda>conn. read_from_mssql_db env conn sql)
     (read_from_mssql_db_trusted env server db_name sql w) \<and>
   own_connection_call
     (get_mssql_db_connection_cred env server db_name username password w)
     (\<lambda>conn. write_to_mssql_db env conn table_name column_list value_df)
     (write_to_mssql_db_cred env server db_name username password table_name column_list
        value_df w) \<and>
   own_connection_call
     (get_mssql_db_connection_trusted env server db_name w)
     (\<lambda>conn. write_to_mssql_db env conn table_name column_list value_df)
     (write_to_mssql_db_trusted env server db_name table_name column_list value_df w)"
proof (intro conjI)
  show "own_connection_call
     (get_mssql_db_connection_cred env server db_name username password w)
     (\<lambda>conn. read_from_mssql_db env conn sql)
     (read_from_mssql_db_cred env server db_name username password sql w)"
    by (rule own_connection_callI)
      (simp_all add: read_keeps_open_conns pyodbc_connect_opens
        get_mssql_db_connection_cred_def read_from_mssql_db_cred_def)
  show "own_connection_call
     (get_mssql_db_connection_trusted env server db_name w)
     (\<lambda>conn. read_from_mssql_db env conn sql)
     (read_from_mssql_db_trusted env server db_name sql w)"
    by (rule own_connection_callI)
      (simp_all add: read_keeps_open_conns pyodbc_connect_opens
        get_mssql_db_connection_trusted_def read_from_mssql_db_trusted_def)
  show "own_connection_call
     (get_mssql_db_connection_cred env server db_name username password w)
     (\<lambda>conn. write_to_mssql_db env conn table_name column_list value_df)
     (write_to_mssql_db_cred env server db_name username password table_name column_list
        value_df w)"
    by (rule own_connection_callI)
      (auto simp: write_keeps_open_conns pyodbc_connect_opens
        get_mssql_db_connection_cred_def write_to_mssql_db_cred_def
        split: prod.splits sum.splits)
  show "own_connection_call
     (get_mssql_db_connection_trusted env server db_name w)
     (\<lambda>conn. write_to_mssql_db env conn table_name column_list value_df)
     (write_to_mssql_db_trusted env server db_name table_name column_list value_df w)"
    by (rule own_connection_callI)
      (auto simp: write_keeps_open_conns pyodbc_connect_opens
        get_mssql_db_connection_trusted_def write_to_mssql_db_trusted_def
        split: prod.splits sum.splits)
qed

theorem overloads_use_own_connection_witness:
  "fst (read_from_mssql_db_cred example_env ''srv'' ''music'' ''sa'' ''pw'' ''SELECT''
          example_world) = Inr empty_df \<and>
   1 \<notin> open_conns (snd (read_from_mssql_db_cred example_env ''srv'' ''music'' ''sa'' ''pw''
          ''SELECT'' example_world))"
proof -
  let ?w1 = "\<lparr>store = [], open_conns = {1, 0}, next_handle = 2,
              trace = [OpConnect (cred_conn_str ''srv'' ''music'' ''sa'' ''pw'') 1]\<rparr>
            :: (cell list list) world"
  have conn: "get_mssql_db_connection_cred example_env ''srv'' ''music'' ''sa'' ''pw''
      example_world = (Inr 1, ?w1)"
    by (simp add: get_mssql_db_connection_cred_def pyodbc_connect_def example_env_def
        example_world_def)
  have inner: "fst (read_from_mssql_db example_env 1 ''SELECT'' ?w1) = Inr empty_df"
    by (simp add: read_from_mssql_db_def con_cursor_def cursor_execute_def cursor_fetchall_def
        example_env_def example_desc_def pd_DataFrame_empty_def empty_df_def)
  have call: "own_connection_call
     (get_mssql_db_connection_cred example_env ''srv'' ''music'' ''sa'' ''pw'' example_world)
     (\<lambda>conn. read_from_mssql_db example_env conn ''SELECT'')
     (read_from_mssql_db_cred example_env ''srv'' ''music'' ''sa'' ''pw'' ''SELECT''
        example_world)"
    using overloads_use_own_connection
      [of example_env "''srv''" "''music''" "''sa''" "''pw''" example_world "''SELECT''"
          "''songs''" "[''ID'', ''Title'']" example_df]
    by blast
  note facts = call [unfolded own_connection_call_def conn prod.case sum.case inner]
  from facts show ?thesis by blast
qed

text \<open>
  The claim as written fails when the connection-taking overload raises: with a row-set
  of zero rows the credential-taking \<open>write_to_mssql_db\<close> opens connection 1, raises the
  ValueError of the inner call, and connection 1 is still open afterwards.
\<close>

theorem overloads_close_counterexample:
  "fst (write_to_mssql_db_cred example_env ''srv'' ''music'' ''sa'' ''pw'' ''songs''
          [''ID'', ''Title''] empty_df example_world) = Inl ValueError \<and>
   1 \<in> open_conns (snd (write_to_mssql_db_cred example_env ''srv'' ''music'' ''sa'' ''pw''
          ''songs'' [''ID'', ''Title''] empty_df example_world))"
  by (simp add: write_to_mssql_db_cred_def get_mssql_db_connection_cred_def pyodbc_connect_def
      write_to_mssql_db_def shape0_def empty_df_def example_env_def example_world_def)

section \<open>Properties of load\_config\<close>

text \<open>
  C4. \<open>load_config\<close> applied to a path naming a well-formed YAML file (the file opens
  and the parser accepts its text) returns the file's parsed content; applied to a path
  naming a malformed YAML file (the parser raises a YAMLError) it prints the error and
  leaves through \<open>sys.exit(0)\<close>, returning no value to the caller.
\<close>

theorem load_config_returns_or_exits:
  "(open_r file_path = Inr conf_file \<and> safe_load conf_file = Loaded conf \<longrightarrow>
      load_config safe_load open_r file_path = (Returned conf, [])) \<and>
   (open_r file_path = Inr conf_file \<and> safe_load conf_file = YAMLError exc \<longrightarrow>
      load_config safe_load open_r file_path = (SystemExit 0, [exc]) \<and>
      (\<forall>v. fst (load_config safe_load open_r file_path) \<noteq> Returned v))"
  by (simp add: load_config_def)

theorem load_config_returns_or_exits_witness:
  "load_config example_safe_load example_open_r ''config/configurations.yml''
     = (Returned example_configs, []) \<and>
   load_config example_safe_load example_open_r ''config/broken.yml''
     = (SystemExit 0, [''mapping values are not allowed here''])"
  using load_config_returns_or_exits
     [of example_open_r "''config/configurations.yml''"
         "''data: {model_path: model.h5, Songs: Songs}''" example_safe_load example_configs
         "''mapping values are not allowed here''"]
    load_config_returns_or_exits
     [of example_open_r "''config/broken.yml''" "''data: Songs: : x''" example_safe_load
         example_configs "''mapping values are not allowed here''"]
  by (simp add: example_safe_load_def example_open_r_def)

section \<open>Properties of classifer\<close>

lemma argmax_from_spec:
  assumes "i = length pre" and "bi < length pre" and "pre ! bi = best"
    and "\<forall>j<length pre. pre ! j \<le> best" and "\<forall>j<bi. pre ! j < best"
  shows "argmax_from xs i best bi < length (pre @ xs) \<and>
         (\<forall>j<length (pre @ xs). (pre @ xs) ! j \<le> (pre @ xs) ! argmax_from xs i best bi) \<and>
         (\<forall>j<argmax_from xs i best bi. (pre @ xs) ! j < (pre @ xs) ! argmax_from xs i best bi)"
  using assms
proof (induction xs arbitrary: pre i best bi)
  case Nil
  then show ?case by simp
next
  case (Cons x xs)
  show ?case
  proof (cases "best < x")
    case True
    have "argmax_from xs (Suc i) x i < length ((pre @ [x]) @ xs) \<and>
         (\<forall>j<length ((pre @ [x]) @ xs).
            ((pre @ [x]) @ xs) ! j \<le> ((pre @ [x]) @ xs) ! argmax_from xs (Suc i) x i) \<and>
         (\<forall>j<argmax_from xs (Suc i) x i.
            ((pre @ [x]) @ xs) ! j < ((pre @ [x]) @ xs) ! argmax_from xs (Suc i) x i)"
    proof (rule Cons.IH)
      show "Suc i = length (pre @ [x])" using Cons.prems by simp
      show "i < length (pre @ [x])" using Cons.prems by simp
      show "(pre @ [x]) ! i = x" using Cons.prems by simp
      show "\<forall>j<length (pre @ [x]). (pre @ [x]) ! j \<le> x"
        using Cons.prems True by (auto simp: nth_append less_Suc_eq)
      show "\<forall>j<i. (pre @ [x]) ! j < x"
        using Cons.prems True by (auto simp: nth_append)
    qed
    then show ?thesis using True by simp
  next
    case False
    have "argmax_from xs (Suc i) best bi < length ((pre @ [x]) @ xs) \<and>
         (\<forall>j<length ((pre @ [x]) @ xs).
            ((pre @ [x]) @ xs) ! j \<le> ((pre @ [x]) @ xs) ! argmax_from xs (Suc i) best bi) \<and>
         (\<forall>j<argmax_from xs (Suc i) best bi.
            ((pre @ [x]) @ xs) ! j < ((pre @ [x]) @ xs) ! argmax_from xs (Suc i) best bi)"
    proof (rule Cons.IH)
      show "Suc i = length (pre @ [x])" using Cons.prems by simp
      show "bi < length (pre @ [x])" using Cons.prems by simp
      show "(pre @ [x]) ! bi = best" using Cons.prems by (simp add: nth_append)
      show "\<forall>j<length (pre @ [x]). (pre @ [x]) ! j \<le> best"
        using Cons.prems False by (auto simp: nth_append less_Suc_eq)
      show "\<forall>j<bi. (pre @ [x]) ! j < best"
        using Cons.prems by (auto simp: nth_append)
    qed
    then show ?thesis using False by simp
  qed
qed

lemma np_argmax_spec:
  assumes "xs \<noteq> []"
  shows "\<exists>label. np_argmax xs = Inr label \<and> label < length xs \<and>
           (\<forall>j<length xs. xs ! j \<le> xs ! label) \<and> (\<forall>j<label. xs ! j < xs ! label)"
proof -
  obtain x rest where xs: "xs = x # rest" using assms by (cases xs) auto
  have "argmax_from rest 1 x 0 < length ([x] @ rest) \<and>
         (\<forall>j<length ([x] @ rest). ([x] @ rest) ! j \<le> ([x] @ rest) ! argmax_from rest 1 x 0) \<and>
         (\<forall>j<argmax_from rest 1 x 0. ([x] @ rest) ! j < ([x] @ rest) ! argmax_from rest 1 x 0)"
    by (rule argmax_from_spec) simp_all
  then show ?thesis unfolding xs by (simp add: np_argmax_def)
qed

lemma class_dict_label:
  "label < 4 \<Longrightarrow> \<exists>name. class_dict label = Some name \<and> name \<in> emotion_labels"
proof -
  assume "label < 4"
  then consider "label = 0" | "label = 1" | "label = 2" | "label = 3" by linarith
  then show ?thesis
    by cases (simp_all add: class_dict_def emotion_labels_def)
qed

text \<open>
  C3. For every correctly shaped input tensor, given a model that yields the scores of
  four classes for it, \<open>classifer\<close> returns one of exactly the four labels Angry, Happy,
  Neutral and Sad, and the returned label is the name that the class dictionary gives
  for the arg-max index of the model's output: the index of the first greatest score.
\<close>

theorem classifer_returns_argmax_label:
  assumes "four_class_model predict_on_batch" and "correctly_shaped img_tensor"
  shows "\<exists>scores label name.
           predict_on_batch img_tensor = Inr [scores] \<and>
           np_argmax (concat [scores]) = Inr label \<and>
           label < length scores \<and>
           (\<forall>j<length scores. scores ! j \<le> scores ! label) \<and>
           (\<forall>j<label. scores ! j < scores ! label) \<and>
           class_dict label = Some name \<and>
           classifer predict_on_batch img_tensor = Inr name \<and>
           name \<in> emotion_labels \<and>
           emotion_labels = {''Angry'', ''Happy'', ''Neutral'', ''Sad''}"
proof -
  from assms obtain a b c d where out: "predict_on_batch img_tensor = Inr [[a, b, c, d]]"
    unfolding four_class_model_def by blast
  let ?scores = "[a, b, c, d]"
  have "?scores \<noteq> []" by simp
  from np_argmax_spec [OF this]
  obtain label where am: "np_argmax ?scores = Inr label" and lt: "label < length ?scores"
    and mx: "\<forall>j<length ?scores. ?scores ! j \<le> ?scores ! label"
    and fst: "\<forall>j<label. ?scores ! j < ?scores ! label"
    by blast
  from lt have "label < 4" by simp
  from class_dict_label [OF this]
  obtain name where nm: "class_dict label = Some name" and mem: "name \<in> emotion_labels"
    by blast
  have cl: "classifer predict_on_batch img_tensor = Inr name"
    using out am nm by (simp add: classifer_def)
  have "np_argmax (concat [?scores]) = Inr label" using am by simp
  have "predict_on_batch img_tensor = Inr [?scores] \<and>
           np_argmax (concat [?scores]) = Inr label \<and>
           label < length ?scores \<and>
           (\<forall>j<length ?scores. ?scores ! j \<le> ?scores ! label) \<and>
           (\<forall>j<label. ?scores ! j < ?scores ! label) \<and>
           class_dict label = Some name \<and>
           classifer predict_on_batch img_tensor = Inr name \<and>
           name \<in> emotion_labels \<and>
           emotion_labels = {''Angry'', ''Happy'', ''Neutral'', ''Sad''}"
    using out am lt mx fst nm cl mem by (simp add: emotion_labels_def)
  then show ?thesis by (intro exI)
qed

theorem classifer_returns_argmax_label_witness:
  "classifer example_model example_tensor = Inr ''Happy''"
proof -
  have m: "four_class_model example_model"
    by (simp add: four_class_model_def example_model_def)
  have t: "correctly_shaped example_tensor"
    unfolding correctly_shaped_def example_tensor_def
    by (simp only: tensor.select_convs length_replicate simp_thms)
  have "\<exists>name. classifer example_model example_tensor = Inr name"
    using classifer_returns_argmax_label [OF m t] by (elim exE conjE) (rule exI)
  moreover have "classifer example_model example_tensor = Inr ''Happy''"
    using t by (simp add: classifer_def example_model_def np_argmax_def class_dict_def)
  ultimately show ?thesis by simp
qed

section \<open>Properties of fetch\_song\_list\<close>

lemma drop_cells_keeps_other_columns:
  "length r = length cols \<Longrightarrow>
   zip (filter (\<lambda>c. c \<noteq> label) cols) (drop_cells label cols r)
     = filter (\<lambda>cv. fst cv \<noteq> label) (zip cols r)"
  unfolding drop_cells_def
  by (induction cols r rule: list_induct2') auto

lemma df_drop_columns:
  "label \<in> set (columns df) \<Longrightarrow>
   df_drop label df = Inr \<lparr>columns = filter (\<lambda>c. c \<noteq> label) (columns df),
                             rows = map (drop_cells label (columns df)) (rows df)\<rparr>"
  by (simp add: df_drop_def)

lemma fetch_song_list_first_entry:
  assumes "yaml_index configs ''data'' = Inr d"
    and "yaml_index d ''Songs'' = Inr (YStr root)"
    and "fs (pjoin root emo_class) = Some (Dir (first # others))"
  shows "fetch_song_list pjoin configs fs emo_class =
           (case pd_read_excel fs (pjoin (pjoin root emo_class) first) of
              Inl e \<Rightarrow> Inl e
            | Inr song_list_df \<Rightarrow> df_drop ''ID'' song_list_df)"
  using assms by (simp add: fetch_song_list_def os_listdir_def)

text \<open>
  C5 (as the code has it). For every emotion label whose directory under the configured
  Songs root is non-empty, and whose first listed entry is a file that loads as a table
  with a column \<open>ID\<close>, \<open>fetch_song_list\<close> returns that table with the column \<open>ID\<close>
  removed: the other columns keep their order, there are as many rows as before, and in
  every row each remaining column has the cell it had.
\<close>

theorem fetch_song_list_drops_id:
  assumes "yaml_index configs ''data'' = Inr d"
    and "yaml_index d ''Songs'' = Inr (YStr root)"
    and "fs (pjoin root emo_class) = Some (Dir (first # others))"
    and "fs (pjoin (pjoin root emo_class) first) = Some (File (Some t))"
    and "''ID'' \<in> set (columns t)"
  shows "\<exists>song_list_df.
           fetch_song_list pjoin configs fs emo_class = Inr song_list_df \<and>
           columns song_list_df = filter (\<lambda>c. c \<noteq> ''ID'') (columns t) \<and>
           ''ID'' \<notin> set (columns song_list_df) \<and>
           rows song_list_df = map (drop_cells ''ID'' (columns t)) (rows t) \<and>
           length (rows song_list_df) = length (rows t) \<and>
           (\<forall>r\<in>set (rows t). length r = length (columns t) \<longrightarrow>
              zip (columns song_list_df) (drop_cells ''ID'' (columns t) r)
                = filter (\<lambda>cv. fst cv \<noteq> ''ID'') (zip (columns t) r))"
proof -
  have "fetch_song_list pjoin configs fs emo_class = df_drop ''ID'' t"
    using fetch_song_list_first_entry [of configs d root fs pjoin emo_class first others]
      assms(1-4)
    by (simp add: pd_read_excel_def)
  then have "fetch_song_list pjoin configs fs emo_class =
      Inr \<lparr>columns = filter (\<lambda>c. c \<noteq> ''ID'') (columns t),
           rows = map (drop_cells ''ID'' (columns t)) (rows t)\<rparr>"
    using df_drop_columns [OF assms(5)] by simp
  then show ?thesis
    by (simp add: drop_cells_keeps_other_columns)
qed

theorem fetch_song_list_drops_id_witness:
  "fetch_song_list posix_join example_configs example_fs ''Happy''
     = Inr \<lparr>columns = [''Title''], rows = [[CStr ''Song'']]\<rparr>"
proof -
  have "\<exists>song_list_df.
           fetch_song_list posix_join example_configs example_fs ''Happy'' = Inr song_list_df \<and>
           columns song_list_df = filter (\<lambda>c. c \<noteq> ''ID'') (columns example_df) \<and>
           ''ID'' \<notin> set (columns song_list_df) \<and>
           rows song_list_df = map (drop_cells ''ID'' (columns example_df)) (rows example_df) \<and>
           length (rows song_list_df) = length (rows example_df) \<and>
           (\<forall>r\<in>set (rows example_df). length r = length (columns example_df) \<longrightarrow>
              zip (columns song_list_df) (drop_cells ''ID'' (columns example_df) r)
                = filter (\<lambda>cv. fst cv \<noteq> ''ID'') (zip (columns example_df) r))"
    by (rule fetch_song_list_drops_id
          [of example_configs "YMap [(''model_path'', YStr ''model.h5''), (''Songs'', YStr ''Songs'')]"
              "''Songs''" example_fs posix_join "''Happy''" "''happy.xlsx''" "[]" example_df])
       (simp_all add: example_configs_def example_fs_def posix_join_def example_df_def)
  then show ?thesis
  proof (elim exE conjE)
    fix song_list_df
    assume r: "fetch_song_list posix_join example_configs example_fs ''Happy'' = Inr song_list_df"
      and c: "columns song_list_df = filter (\<lambda>c. c \<noteq> ''ID'') (columns example_df)"
      and w: "rows song_list_df = map (drop_cells ''ID'' (columns example_df)) (rows example_df)"
    have "song_list_df = \<lparr>columns = [''Title''], rows = [[CStr ''Song'']]\<rparr>"
      using c w by (cases song_list_df) (simp add: example_df_def drop_cells_def)
    with r show ?thesis by simp
  qed
qed

text \<open>
  The claim as written fails for a non-empty directory whose first listed file has no
  column \<open>ID\<close> (the drop raises a KeyError) and for one whose first listed entry is not a
  readable spreadsheet (the load raises).
\<close>

theorem fetch_song_list_counterexample:
  "fetch_song_list posix_join example_configs example_fs ''Sad'' = Inl KeyError \<and>
   fetch_song_list posix_join example_configs example_fs ''Neutral'' = Inl ExcelReadError"
  by (simp add: fetch_song_list_def example_configs_def example_fs_def posix_join_def
      os_listdir_def pd_read_excel_def df_drop_def no_id_df_def)

text \<open>
  C8. For every emotion label whose directory exists but contains no files,
  \<open>fetch_song_list\<close> fails, and the failure is what the caller gets: an IndexError when
  the directory has no entry at all, and the error of the load when its entries are not
  files.
\<close>

theorem fetch_song_list_empty_directory_fails:
  assumes "yaml_index configs ''data'' = Inr d"
    and "yaml_index d ''Songs'' = Inr (YStr root)"
    and "fs (pjoin root emo_class) = Some (Dir names)"
    and "\<forall>n\<in>set names. \<not> is_file (fs (pjoin (pjoin root emo_class) n))"
  shows "isl (fetch_song_list pjoin configs fs emo_class) \<and>
         (names = [] \<longrightarrow> fetch_song_list pjoin configs fs emo_class = Inl IndexError)"
proof (cases names)
  case Nil
  then show ?thesis using assms
    by (simp add: fetch_song_list_def os_listdir_def)
next
  case (Cons first others)
  have nf: "\<not> is_file (fs (pjoin (pjoin root emo_class) first))"
    using assms(4) Cons by simp
  have "isl (pd_read_excel fs (pjoin (pjoin root emo_class) first))"
    using nf by (auto simp: pd_read_excel_def is_file_def split: option.splits node.splits)
  then show ?thesis
    using fetch_song_list_first_entry [of configs d root fs pjoin emo_class first others]
      assms(1-3) Cons
    by (auto simp: isl_def)
qed

theorem fetch_song_list_empty_directory_fails_witness:
  "fetch_song_list posix_join example_configs example_fs ''Angry'' = Inl IndexError"
  using fetch_song_list_empty_directory_fails
     [of example_configs "YMap [(''model_path'', YStr ''model.h5''), (''Songs'', YStr ''Songs'')]"
         "''Songs''" example_fs posix_join "''Angry''" "[]"]
  by (simp add: example_configs_def example_fs_def posix_join_def)

end
